theory Spec2Isabelle
  imports Complex_Main
begin

section \<open>Sun \<and> Light: the simulation of src/src/App.tsx\<close>

text \<open>
  The game is a single React component. Its numbers are JavaScript numbers; the
  model takes the continuous ones (coordinates, radii, speeds, times) as exact
  reals, so rounding of IEEE doubles is outside the model, and the counters
  (score, round, ammo, enemiesToSpawn, enemiesDestroyed) as integers, which is
  what they are in every run. Drawing mutates no state and is left out.
  The calls of \<^verbatim>\<open>Math.random()\<close> are parameters of the model.
\<close>

subsection \<open>Types and constants\<close>

record Point =
  px :: real
  py :: real

datatype GameStatus = START | PLAYING | ROUND_END | GAME_OVER | WIN

definition WIN_SCORE :: int where
  "WIN_SCORE = 1000"

definition INITIAL_AMMO :: "int list" where
  "INITIAL_AMMO = [20, 40, 20]"

subsection \<open>class EnemyRocket\<close>

record EnemyRocket =
  e_start :: Point
  e_end :: Point
  e_pos :: Point
  e_speed :: real
  e_targetIndex :: nat

text \<open>The constructor; \<open>r\<close> is the value of its call of \<^verbatim>\<open>Math.random()\<close>.\<close>

definition new_EnemyRocket :: "real \<Rightarrow> real \<Rightarrow> real \<Rightarrow> nat \<Rightarrow> real \<Rightarrow> real \<Rightarrow> EnemyRocket" where
  "new_EnemyRocket w h targetX targetIndex speed r =
     \<lparr> e_start = \<lparr> px = r * w, py = 0 \<rparr>,
       e_end = \<lparr> px = targetX, py = h - 40 \<rparr>,
       e_pos = \<lparr> px = r * w, py = 0 \<rparr>,
       e_speed = speed * (2 / 3),
       e_targetIndex = targetIndex \<rparr>"

text \<open>\<^verbatim>\<open>update(dt)\<close> returns the flag and the object as mutated.\<close>

definition EnemyRocket_update :: "EnemyRocket \<Rightarrow> real \<Rightarrow> bool \<times> EnemyRocket" where
  "EnemyRocket_update e dt =
     (let dx = px (e_end e) - px (e_pos e);
          dy = py (e_end e) - py (e_pos e);
          dst = sqrt (dx * dx + dy * dy)
      in if dst < 2 then (False, e)
         else
           (let vx = (dx / dst) * e_speed e * dt;
                vy = (dy / dst) * e_speed e * dt
            in (True, e\<lparr> e_pos := \<lparr> px = px (e_pos e) + vx, py = py (e_pos e) + vy \<rparr> \<rparr>)))"

subsection \<open>class InterceptorMissile\<close>

record InterceptorMissile =
  m_start :: Point
  m_target :: Point
  m_pos :: Point
  m_speed :: real

definition new_InterceptorMissile :: "Point \<Rightarrow> Point \<Rightarrow> InterceptorMissile" where
  "new_InterceptorMissile start target =
     \<lparr> m_start = start, m_target = target, m_pos = start, m_speed = 400 \<rparr>"

definition InterceptorMissile_update :: "InterceptorMissile \<Rightarrow> real \<Rightarrow> bool \<times> InterceptorMissile" where
  "InterceptorMissile_update m dt =
     (let dx = px (m_target m) - px (m_pos m);
          dy = py (m_target m) - py (m_pos m);
          dst = sqrt (dx * dx + dy * dy)
      in if dst < 5 then (False, m)
         else
           (let vx = (dx / dst) * m_speed m * dt;
                vy = (dy / dst) * m_speed m * dt
            in (True, m\<lparr> m_pos := \<lparr> px = px (m_pos m) + vx, py = py (m_pos m) + vy \<rparr> \<rparr>)))"

subsection \<open>class Explosion\<close>

record Explosion =
  x_pos :: Point
  x_radius :: real
  x_maxRadius :: real
  x_growing :: bool
  x_speed :: real

definition new_Explosion :: "Point \<Rightarrow> Explosion" where
  "new_Explosion p =
     \<lparr> x_pos = p, x_radius = 0, x_maxRadius = 45, x_growing = True, x_speed = 60 \<rparr>"

definition Explosion_update :: "Explosion \<Rightarrow> real \<Rightarrow> bool \<times> Explosion" where
  "Explosion_update e dt =
     (let e' =
        (if x_growing e then
           (let e1 = e\<lparr> x_radius := x_radius e + x_speed e * dt \<rparr>
            in if x_radius e1 \<ge> x_maxRadius e1 then e1\<lparr> x_growing := False \<rparr> else e1)
         else e\<lparr> x_radius := x_radius e - (x_speed e * 0.6) * dt \<rparr>)
      in (x_radius e' > 0, e'))"

text \<open>A sequence of calls of \<^verbatim>\<open>update\<close> on one explosion, one per dt.\<close>

fun Explosion_updates :: "Explosion \<Rightarrow> real list \<Rightarrow> Explosion" where
  "Explosion_updates e [] = e"
| "Explosion_updates e (dt # dts) = Explosion_updates (snd (Explosion_update e dt)) dts"

subsection \<open>The component's state\<close>

text \<open>
  The React state (\<open>status\<close> to \<open>batteries\<close>) and the fields of \<^verbatim>\<open>stateRef.current\<close>
  in one record. A handler or a frame reads the React state of the render that made
  it; a \<^verbatim>\<open>setX\<close> call inside it changes the state of the next render only. Where the
  source reads such a captured variable after setting it, the model passes the
  captured value (or the captured state \<open>snap\<close>) as an argument of its own.
  \<^verbatim>\<open>resize\<close> sets the canvas size and the fields \<open>width\<close> and \<open>height\<close> together, so
  \<^verbatim>\<open>canvas.width\<close> and \<^verbatim>\<open>canvas.height\<close> are read from these fields.
\<close>

record game =
  status :: GameStatus
  score :: int
  round_n :: int
  ammo :: "int list"
  cities :: "bool list"
  batteries :: "bool list"
  enemies :: "EnemyRocket list"
  interceptors :: "InterceptorMissile list"
  explosions :: "Explosion list"
  lastTime :: real
  spawnTimer :: real
  enemiesToSpawn :: int
  enemiesDestroyed :: int
  roundActive :: bool
  width :: real
  height :: real

definition initial :: game where
  "initial =
     \<lparr> status = START, score = 0, round_n = 1, ammo = INITIAL_AMMO,
       cities = replicate 6 True, batteries = replicate 3 True,
       enemies = [], interceptors = [], explosions = [],
       lastTime = 0, spawnTimer = 0, enemiesToSpawn = 10, enemiesDestroyed = 0,
       roundActive = False, width = 0, height = 0 \<rparr>"

definition resize :: "real \<Rightarrow> real \<Rightarrow> game \<Rightarrow> game" where
  "resize w h g = g\<lparr> width := w, height := h \<rparr>"

text \<open>Reading \<^verbatim>\<open>xs[i]\<close> as a condition: out of range it is \<^verbatim>\<open>undefined\<close>, which is falsy.\<close>

definition alive_at :: "bool list \<Rightarrow> nat \<Rightarrow> bool" where
  "alive_at xs i = (i < length xs \<and> xs ! i)"

text \<open>\<^verbatim>\<open>ammo[i] > 0\<close>: out of range \<^verbatim>\<open>undefined > 0\<close> is false.\<close>

definition ammo_positive :: "int list \<Rightarrow> nat \<Rightarrow> bool" where
  "ammo_positive a i = (i < length a \<and> a ! i > 0)"

text \<open>
  \<^verbatim>\<open>next[i] = false\<close> on a copy of the array. Past the end JavaScript extends the
  array with holes; every read of these arrays in the program treats a hole as
  it treats \<^verbatim>\<open>false\<close>.
\<close>

definition set_false :: "bool list \<Rightarrow> nat \<Rightarrow> bool list" where
  "set_false xs i =
     (if i < length xs then xs[i := False]
      else xs @ replicate (i - length xs) False @ [False])"

subsection \<open>initRound, startGame, nextRound\<close>

text \<open>
  \<^verbatim>\<open>initRound\<close> is a \<^verbatim>\<open>useCallback\<close> closure over \<^verbatim>\<open>round\<close>: \<open>r\<close> is the round of
  the render that made it.
\<close>

definition initRound :: "int \<Rightarrow> game \<Rightarrow> game" where
  "initRound r g =
     g\<lparr> enemies := [], interceptors := [], explosions := [],
        enemiesToSpawn := 10 + r * 5, enemiesDestroyed := 0, spawnTimer := 0,
        roundActive := True, ammo := INITIAL_AMMO \<rparr>"

definition startGame :: "game \<Rightarrow> game" where
  "startGame g =
     initRound (round_n g)
       (g\<lparr> score := 0, round_n := 1, cities := replicate 6 True,
           batteries := replicate 3 True, status := PLAYING \<rparr>)"

definition nextRound :: "game \<Rightarrow> game" where
  "nextRound g =
     (let ammoBonus = foldl (+) 0 (ammo g) * 5
      in initRound (round_n g)
           (g\<lparr> score := score g + ammoBonus, round_n := round_n g + 1,
               status := PLAYING \<rparr>))"

subsection \<open>handleCanvasClick\<close>

text \<open>The pairs are \<^verbatim>\<open>{x, index}\<close>; the index is also the position in the array.\<close>

definition batteryPositions :: "game \<Rightarrow> (real \<times> nat) list" where
  "batteryPositions g = [(40, 0), (width g / 2, 1), (width g - 40, 2)]"

text \<open>
  The \<^verbatim>\<open>forEach\<close> over the battery positions, folding \<^verbatim>\<open>(bestBattery, minDist)\<close>;
  \<open>None\<close> is \<^verbatim>\<open>Infinity\<close>.
\<close>

fun nearest :: "game \<Rightarrow> real \<Rightarrow> (real \<times> nat) list \<Rightarrow> int \<times> real option \<Rightarrow> int \<times> real option" where
  "nearest g x [] acc = acc"
| "nearest g x ((bx, i) # bps) (bestBattery, minDist) =
     (if alive_at (batteries g) i \<and> ammo_positive (ammo g) i then
        (let d = \<bar>x - bx\<bar>
         in if (case minDist of None \<Rightarrow> True | Some m \<Rightarrow> d < m)
            then nearest g x bps (int i, Some d)
            else nearest g x bps (bestBattery, minDist))
      else nearest g x bps (bestBattery, minDist))"

text \<open>\<open>x\<close> and \<open>y\<close> are the coordinates of the press relative to the canvas.\<close>

definition handleCanvasClick :: "real \<Rightarrow> real \<Rightarrow> game \<Rightarrow> game" where
  "handleCanvasClick x y g =
     (if status g \<noteq> PLAYING then g
      else if y > height g - 60 then g
      else
        (let bestBattery = fst (nearest g x (batteryPositions g) (- 1, None))
         in if bestBattery \<noteq> - 1 then
              (let startPos = \<lparr> px = fst (batteryPositions g ! nat bestBattery),
                                py = height g - 40 \<rparr>
               in g\<lparr> interceptors :=
                       interceptors g @ [new_InterceptorMissile startPos \<lparr> px = x, py = y \<rparr>],
                     ammo := (ammo g)[nat bestBattery := ammo g ! nat bestBattery - 1] \<rparr>)
            else g))"

subsection \<open>The frame: loop\<close>

text \<open>The filter over the interceptors; a dead one pushes an explosion at its target.\<close>

fun interceptors_filter :: "real \<Rightarrow> InterceptorMissile list \<Rightarrow> Explosion list
    \<Rightarrow> InterceptorMissile list \<times> Explosion list" where
  "interceptors_filter dt [] exs = ([], exs)"
| "interceptors_filter dt (m # ms) exs =
     (let alive = fst (InterceptorMissile_update m dt);
          m' = snd (InterceptorMissile_update m dt);
          exs' = (if \<not> alive then exs @ [new_Explosion (m_target m')] else exs);
          rest = interceptors_filter dt ms exs'
      in (if alive then m' # fst rest else fst rest, snd rest))"

text \<open>
  The inner filter of one explosion over the enemies; it threads the score and
  \<^verbatim>\<open>enemiesDestroyed\<close>.
\<close>

fun collide :: "Explosion \<Rightarrow> EnemyRocket list \<Rightarrow> int \<times> int \<Rightarrow> EnemyRocket list \<times> int \<times> int" where
  "collide e [] sd = ([], sd)"
| "collide e (enemy # rest) (s, d) =
     (let dx = px (e_pos enemy) - px (x_pos e);
          dy = py (e_pos enemy) - py (x_pos e);
          dst = sqrt (dx * dx + dy * dy)
      in if dst < x_radius e then collide e rest (s + 20, d + 1)
         else (let r = collide e rest (s, d) in (enemy # fst r, snd r)))"

text \<open>The filter over the explosions: update, then the collision filter, dead or alive.\<close>

fun explosions_filter :: "real \<Rightarrow> Explosion list \<Rightarrow> EnemyRocket list \<times> int \<times> int
    \<Rightarrow> Explosion list \<times> EnemyRocket list \<times> int \<times> int" where
  "explosions_filter dt [] st = ([], st)"
| "explosions_filter dt (e # es) (ens, sd) =
     (let alive = fst (Explosion_update e dt);
          e' = snd (Explosion_update e dt);
          rest = explosions_filter dt es (collide e' ens sd)
      in (if alive then e' # fst rest else fst rest, snd rest))"

text \<open>
  The filter over the enemies: a dead one marks its city or battery and pushes an
  explosion at its position. The state threaded is (cities, batteries, explosions).
\<close>

fun enemies_filter :: "real \<Rightarrow> EnemyRocket list \<Rightarrow> bool list \<times> bool list \<times> Explosion list
    \<Rightarrow> EnemyRocket list \<times> bool list \<times> bool list \<times> Explosion list" where
  "enemies_filter dt [] st = ([], st)"
| "enemies_filter dt (enemy # rest) (cs, bs, exs) =
     (let alive = fst (EnemyRocket_update enemy dt);
          enemy' = snd (EnemyRocket_update enemy dt);
          st' =
            (if \<not> alive then
               (let idx = e_targetIndex enemy'
                in if idx < 6 then (set_false cs idx, bs, exs @ [new_Explosion (e_pos enemy')])
                   else (let bIdx = idx - 6
                         in (cs, set_false bs bIdx, exs @ [new_Explosion (e_pos enemy')])))
             else (cs, bs, exs));
          r = enemies_filter dt rest st'
      in (if alive then enemy' # fst r else fst r, snd r))"

text \<open>The three calls of \<^verbatim>\<open>Math.random()\<close> of one spawn, in the order they are made.\<close>

record rand =
  r_target :: real
  r_start :: real
  r_timer :: real

definition availableTargets :: "bool list \<Rightarrow> bool list \<Rightarrow> nat list" where
  "availableTargets cs bs =
     [i \<leftarrow> [0..<length cs]. cs ! i] @ map (\<lambda>i. i + 6) [i \<leftarrow> [0..<length bs]. bs ! i]"

text \<open>
  The x-coordinate of a target. The index comes from \<open>availableTargets\<close>, so it is
  below 9 and both reads are in range while there are 6 cities and 3 batteries.
\<close>

definition targetX_of :: "real \<Rightarrow> nat \<Rightarrow> real" where
  "targetX_of w targetIdx =
     (if targetIdx < 6 then
        (let spacing = w / 9;
             cityPositions = [spacing * 1.5, spacing * 2.5, spacing * 3.5,
                              spacing * 5.5, spacing * 6.5, spacing * 7.5]
         in cityPositions ! targetIdx)
      else
        (let bIdx = targetIdx - 6;
             bPos = [40, w / 2, w - 40]
         in bPos ! bIdx))"

text \<open>
  The spawning block. \<open>snap\<close> is the state the frame's closure captured: its status,
  round, cities and batteries. \<^verbatim>\<open>Math.random()\<close> is in [0, 1), so the read of
  \<open>availableTargets\<close> is in range.
\<close>

definition spawning :: "game \<Rightarrow> real \<Rightarrow> rand \<Rightarrow> game \<Rightarrow> game" where
  "spawning snap dt rnd g =
     (if status snap = PLAYING \<and> enemiesToSpawn g > 0 then
        (let g1 = g\<lparr> spawnTimer := spawnTimer g - dt \<rparr>
         in if spawnTimer g1 \<le> 0 then
              (let av = availableTargets (cities snap) (batteries snap)
               in if length av > 0 then
                    (let targetIdx = av ! nat \<lfloor>r_target rnd * real (length av)\<rfloor>;
                         targetX = targetX_of (width g1) targetIdx;
                         speed = 40 + real_of_int (round_n snap) * 10
                     in g1\<lparr> enemies := enemies g1 @
                               [new_EnemyRocket (width g1) (height g1) targetX targetIdx speed
                                  (r_start rnd)],
                            enemiesToSpawn := enemiesToSpawn g1 - 1,
                            spawnTimer :=
                              1.5 - min 1 (real_of_int (round_n snap) * 0.1) + r_timer rnd \<rparr>)
                  else g1)
            else g1)
      else g)"

definition roundEndCheck :: "game \<Rightarrow> game \<Rightarrow> game" where
  "roundEndCheck snap g =
     (if status snap = PLAYING \<and> enemiesToSpawn g = 0 \<and> length (enemies g) = 0
      then g\<lparr> status := ROUND_END \<rparr> else g)"

text \<open>One animation frame at time stamp \<open>time\<close>.\<close>

definition loop :: "real \<Rightarrow> rand \<Rightarrow> game \<Rightarrow> game" where
  "loop time rnd g =
     (let dt = min 0.1 ((time - lastTime g) / 1000);
          g0 = g\<lparr> lastTime := time \<rparr>
      in if status g = PLAYING \<or> status g = ROUND_END then
           (let i = interceptors_filter dt (interceptors g0) (explosions g0);
                g1 = g0\<lparr> interceptors := fst i, explosions := snd i \<rparr>;
                c = explosions_filter dt (explosions g1)
                      (enemies g1, score g1, enemiesDestroyed g1);
                g2 = g1\<lparr> explosions := fst c, enemies := fst (snd c),
                         score := fst (snd (snd c)),
                         enemiesDestroyed := snd (snd (snd c)) \<rparr>;
                n = enemies_filter dt (enemies g2) (cities g2, batteries g2, explosions g2);
                g3 = g2\<lparr> enemies := fst n, cities := fst (snd n),
                         batteries := fst (snd (snd n)),
                         explosions := snd (snd (snd n)) \<rparr>
            in roundEndCheck g (spawning g dt rnd g3))
         else g0)"

subsection \<open>The win and loss effect\<close>

text \<open>The effect on \<^verbatim>\<open>[score, batteries, status]\<close>: two ifs in a row, the later call wins.\<close>

definition winLossEffect :: "game \<Rightarrow> game" where
  "winLossEffect g =
     (if status g = PLAYING then
        (let g1 = (if score g \<ge> WIN_SCORE then g\<lparr> status := WIN \<rparr> else g)
         in if list_all (\<lambda>b. \<not> b) (batteries g) then g1\<lparr> status := GAME_OVER \<rparr> else g1)
      else g)"

subsection \<open>The states a session reaches\<close>

text \<open>
  Every command and every frame is followed by the render's effect. The start and
  next-round buttons exist only in the statuses that show them.
\<close>

inductive reachable :: "game \<Rightarrow> bool" where
  r_init: "reachable initial"
| r_resize: "reachable g \<Longrightarrow> reachable (resize w h g)"
| r_start: "reachable g \<Longrightarrow> status g = START \<or> status g = GAME_OVER \<or> status g = WIN
     \<Longrightarrow> reachable (winLossEffect (startGame g))"
| r_next: "reachable g \<Longrightarrow> status g = ROUND_END \<Longrightarrow> reachable (winLossEffect (nextRound g))"
| r_press: "reachable g \<Longrightarrow> reachable (winLossEffect (handleCanvasClick x y g))"
| r_frame: "reachable g \<Longrightarrow> reachable (winLossEffect (loop time rnd g))"

subsection \<open>Notions the statements use\<close>

text \<open>The Euclidean distance between two points.\<close>

definition distance :: "Point \<Rightarrow> Point \<Rightarrow> real" where
  "distance p q = sqrt ((px q - px p)\<^sup>2 + (py q - py p)\<^sup>2)"

text \<open>An enemy is inside an explosion: strictly closer to its centre than its radius.\<close>

definition hits :: "Explosion \<Rightarrow> EnemyRocket \<Rightarrow> bool" where
  "hits e enemy = (distance (x_pos e) (e_pos enemy) < x_radius e)"

text \<open>The enemies of a list whose \<^verbatim>\<open>update(dt)\<close> returns false.\<close>

definition arrived :: "real \<Rightarrow> EnemyRocket list \<Rightarrow> EnemyRocket list" where
  "arrived dt ens = [e \<leftarrow> ens. \<not> fst (EnemyRocket_update e dt)]"

text \<open>
  What holds of an explosion made by the constructor and updated with steps of at
  most \<open>d\<close> seconds: while it grows it is below 45, and it never gets past 45 by a
  whole step.
\<close>

definition blast_inv :: "real \<Rightarrow> Explosion \<Rightarrow> bool" where
  "blast_inv d e =
     (x_maxRadius e = 45 \<and> x_speed e = 60 \<and> x_radius e < 45 + 60 * d \<and>
      (if x_growing e then 0 \<le> x_radius e \<and> x_radius e < 45 else True))"

definition ammo_ok :: "int list \<Rightarrow> bool" where
  "ammo_ok a = (length a = 3 \<and> 0 \<le> a ! 0 \<and> 0 \<le> a ! 1 \<and> 0 \<le> a ! 2)"

subsection \<open>States and entities of the examples\<close>

text \<open>The end of round 1 with ammo left, as in the scenario of the design notes.\<close>

definition round_end_example :: game where
  "round_end_example =
     initial\<lparr> status := ROUND_END, ammo := [5, 10, 5], enemiesToSpawn := 0 \<rparr>"

text \<open>A game lost in round 5, before the restart.\<close>

definition restart_example :: game where
  "restart_example = initial\<lparr> status := GAME_OVER, round_n := 5 \<rparr>"

text \<open>Playing on an 800 by 600 canvas, only the centre battery has ammo.\<close>

definition low_ammo_example :: game where
  "low_ammo_example =
     initial\<lparr> status := PLAYING, ammo := [0, 5, 0], batteries := [True, True, True],
              width := 800, height := 600 \<rparr>"

definition no_ammo_example :: game where
  "no_ammo_example = low_ammo_example\<lparr> ammo := [0, 0, 0] \<rparr>"

text \<open>The score reaches 1000 in the frame in which the last battery is hit.\<close>

definition win_and_loss_example :: game where
  "win_and_loss_example =
     initial\<lparr> status := PLAYING, score := 1000, batteries := [False, False, False] \<rparr>"

definition win_example :: game where
  "win_example =
     initial\<lparr> status := PLAYING, score := 1000, batteries := [True, False, False] \<rparr>"

definition origin :: Point where
  "origin = \<lparr> px = 0, py = 0 \<rparr>"

text \<open>An enemy one unit from its end point, aimed at battery 1 (target index 7).\<close>

definition arriving_enemy :: EnemyRocket where
  "arriving_enemy =
     \<lparr> e_start = origin, e_end = \<lparr> px = 1, py = 0 \<rparr>, e_pos = origin,
       e_speed = 40, e_targetIndex = 7 \<rparr>"

definition far_enemy :: EnemyRocket where
  "far_enemy =
     \<lparr> e_start = \<lparr> px = 100, py = 0 \<rparr>, e_end = \<lparr> px = 100, py = 560 \<rparr>,
       e_pos = \<lparr> px = 100, py = 0 \<rparr>, e_speed = 40, e_targetIndex = 0 \<rparr>"

text \<open>An interceptor one unit from its target.\<close>

definition arriving_interceptor :: InterceptorMissile where
  "arriving_interceptor =
     (new_InterceptorMissile origin \<lparr> px = 1, py = 0 \<rparr>)"

text \<open>A round under way: 15 enemies to spawn, the timer run out.\<close>

definition spawn_example :: game where
  "spawn_example =
     initial\<lparr> status := PLAYING, enemiesToSpawn := 15, cities := [True, True, True, True, True, True],
              batteries := [True, True, True], width := 800, height := 600 \<rparr>"

definition no_target_example :: game where
  "no_target_example =
     spawn_example\<lparr> cities := [False, False, False, False, False, False],
                    batteries := [False, False, False] \<rparr>"

definition spawn_rand :: rand where
  "spawn_rand = \<lparr> r_target = 1 / 2, r_start = 1 / 4, r_timer = 1 / 2 \<rparr>"

text \<open>A session: start, the canvas sized, one press at (50, 100).\<close>

definition after_press_example :: game where
  "after_press_example =
     winLossEffect (handleCanvasClick 50 100 (resize 800 600 (winLossEffect (startGame initial))))"

section \<open>Properties\<close>

subsection \<open>Helper facts\<close>

lemma distance_inline:
  "sqrt ((px q - px p) * (px q - px p) + (py q - py p) * (py q - py p)) = distance p q"
  by (simp add: distance_def power2_eq_square)

lemma sqrt_less_iff: "0 < r \<Longrightarrow> (sqrt v < r) = (v < r\<^sup>2)"
  using real_sqrt_less_iff [of v "r\<^sup>2"] by simp

lemma foldl_plus_sum_list: "foldl (+) a xs = a + sum_list (xs :: int list)"
  by (induction xs arbitrary: a) simp_all

lemma replicate_3: "replicate 3 v = [v, v, v]"
  by (simp add: numeral_3_eq_3)

subsection \<open>The next-round command\<close>

text \<open>What \<^verbatim>\<open>nextRound\<close> does, for any state: the round count of the new round is
  computed from the round before the increment.\<close>

lemma nextRound_effect:
  "nextRound g =
     g\<lparr> score := score g + sum_list (ammo g) * 5, round_n := round_n g + 1,
        status := PLAYING, enemies := [], interceptors := [], explosions := [],
        enemiesToSpawn := 10 + round_n g * 5, enemiesDestroyed := 0, spawnTimer := 0,
        roundActive := True, ammo := [20, 40, 20] \<rparr>"
  by (simp add: nextRound_def initRound_def INITIAL_AMMO_def Let_def foldl_plus_sum_list)

text \<open>The same capture in \<^verbatim>\<open>startGame\<close>: a restart after a loss in round 5 begins round 1
  with the enemy count of round 5.\<close>

lemma startGame_stale_round:
  "round_n (startGame restart_example) = 1 \<and> enemiesToSpawn (startGame restart_example) = 35"
  by (simp add: startGame_def initRound_def restart_example_def initial_def)

text \<open>
  C1 (the code at the failing input). At the end of round 1 with ammo [5, 10, 5] the
  next-round command adds 100 to the score, makes the round 2, resets the ammo, empties
  the collections and sets the status to PLAYING, but it sets \<open>enemiesToSpawn\<close> to
  15 = 10 + 1 * 5: the formula reads the round captured before the increment, where the
  claim has 10 + 2 * 5 = 20.
\<close>

theorem nextRound_stale_round:
  "status round_end_example = ROUND_END \<and> round_n round_end_example = 1 \<and>
   score (nextRound round_end_example) = score round_end_example + (5 + 10 + 5) * 5 \<and>
   round_n (nextRound round_end_example) = 2 \<and>
   enemies (nextRound round_end_example) = [] \<and>
   interceptors (nextRound round_end_example) = [] \<and>
   explosions (nextRound round_end_example) = [] \<and>
   ammo (nextRound round_end_example) = [20, 40, 20] \<and>
   enemiesDestroyed (nextRound round_end_example) = 0 \<and>
   spawnTimer (nextRound round_end_example) = 0 \<and>
   status (nextRound round_end_example) = PLAYING \<and>
   enemiesToSpawn (nextRound round_end_example) = 15 \<and>
   10 + round_n (nextRound round_end_example) * 5 = 20"
  by (simp add: nextRound_effect round_end_example_def initial_def)

subsection \<open>Explosions\<close>

text \<open>
  C2 (counterexample). Eight frames of 0.1 s take a new explosion to radius 48, past
  its \<open>maxRadius\<close> of 45: the radius is not held in the range 0..45.
\<close>

theorem Explosion_overshoots_maxRadius:
  "x_radius (Explosion_updates (new_Explosion origin)
      [0.1, 0.1, 0.1, 0.1, 0.1, 0.1, 0.1, 0.1]) = 48 \<and>
   x_maxRadius (Explosion_updates (new_Explosion origin)
      [0.1, 0.1, 0.1, 0.1, 0.1, 0.1, 0.1, 0.1]) = 45"
  by (simp add: new_Explosion_def Explosion_update_def Let_def)

lemma blast_inv_new: "0 \<le> d \<Longrightarrow> blast_inv d (new_Explosion p)"
  by (simp add: blast_inv_def new_Explosion_def)

lemma blast_inv_update:
  "blast_inv d e \<Longrightarrow> 0 < dt \<Longrightarrow> dt \<le> d \<Longrightarrow> blast_inv d (snd (Explosion_update e dt))"
  by (auto simp add: blast_inv_def Explosion_update_def Let_def split: if_splits)

lemma blast_inv_updates:
  "blast_inv d e \<Longrightarrow> \<forall>t \<in> set dts. 0 < t \<and> t \<le> d \<Longrightarrow> blast_inv d (Explosion_updates e dts)"
  by (induction dts arbitrary: e) (simp_all add: blast_inv_update)

text \<open>
  C2 (amended). Take an explosion made by the constructor, any sequence of updates
  with steps 0 < dt \<le> d, and one more such update. While \<open>growing\<close> is true the radius
  is in [0, 45) and the update strictly increases it; the update that ends the growth
  leaves the radius at 45 or more; once \<open>growing\<close> is false it stays false and every
  update strictly decreases the radius. The radius is not clamped: it stays below
  45 + 60 * d (below 51 for the frame's d = 0.1). The update returns false exactly when
  the radius after it is \<le> 0.
\<close>

theorem Explosion_radius_profile:
  assumes dts: "\<forall>t \<in> set dts. 0 < t \<and> t \<le> d" and d: "0 \<le> d"
    and dt: "0 < dt \<and> dt \<le> d"
  shows "let e = Explosion_updates (new_Explosion p) dts;
             e' = snd (Explosion_update e dt)
         in (x_growing e \<longrightarrow> 0 \<le> x_radius e \<and> x_radius e < 45 \<and> x_radius e < x_radius e') \<and>
            (x_growing e \<and> \<not> x_growing e' \<longrightarrow> 45 \<le> x_radius e') \<and>
            (\<not> x_growing e \<longrightarrow> \<not> x_growing e' \<and> x_radius e' < x_radius e) \<and>
            x_radius e < 45 + 60 * d \<and> x_radius e' < 45 + 60 * d \<and>
            x_maxRadius e = 45 \<and>
            (fst (Explosion_update e dt) = False \<longleftrightarrow> x_radius e' \<le> 0)"
proof -
  have inv: "blast_inv d (Explosion_updates (new_Explosion p) dts)"
    using blast_inv_updates [OF blast_inv_new [OF d] dts] .
  have inv': "blast_inv d (snd (Explosion_update (Explosion_updates (new_Explosion p) dts) dt))"
    using blast_inv_update [OF inv] dt by simp
  have r': "x_radius (snd (Explosion_update (Explosion_updates (new_Explosion p) dts) dt))
              < 45 + 60 * d"
    using inv' by (simp add: blast_inv_def)
  show ?thesis
    unfolding Let_def
    using inv dt r' by (auto simp add: blast_inv_def Explosion_update_def Let_def split: if_splits)
qed

theorem Explosion_radius_profile_witness:
  "x_growing (Explosion_updates (new_Explosion origin) [0.1, 0.1]) \<and>
   x_radius (Explosion_updates (new_Explosion origin) [0.1, 0.1]) = 12 \<and>
   x_radius (snd (Explosion_update (Explosion_updates (new_Explosion origin) [0.1, 0.1]) 0.1)) = 18 \<and>
   x_radius (Explosion_updates (new_Explosion origin) [0.1, 0.1])
     < x_radius (snd (Explosion_update (Explosion_updates (new_Explosion origin) [0.1, 0.1]) 0.1)) \<and>
   x_radius (Explosion_updates (new_Explosion origin) [0.1, 0.1]) < 45 + 60 * 0.1 \<and>
   fst (Explosion_update (Explosion_updates (new_Explosion origin) [0.1, 0.1]) 0.1)"
proof -
  have h1: "\<forall>t \<in> set [0.1, 0.1 :: real]. 0 < t \<and> t \<le> 0.1" by simp
  have h2: "(0::real) \<le> 0.1" by simp
  have h3: "(0::real) < 0.1 \<and> (0.1::real) \<le> 0.1" by simp
  have g: "x_growing (Explosion_updates (new_Explosion origin) [0.1, 0.1])"
    by (simp add: new_Explosion_def Explosion_update_def Let_def)
  show ?thesis
    using Explosion_radius_profile [OF h1 h2 h3, of origin] g
    by (simp add: new_Explosion_def Explosion_update_def Let_def)
qed

subsection \<open>Projectiles\<close>

lemma EnemyRocket_update_alive:
  "fst (EnemyRocket_update e dt) = (\<not> distance (e_pos e) (e_end e) < 2)"
  by (simp add: EnemyRocket_update_def Let_def distance_inline)

lemma EnemyRocket_update_dead:
  "\<not> fst (EnemyRocket_update e dt) \<Longrightarrow> snd (EnemyRocket_update e dt) = e"
  by (simp add: EnemyRocket_update_def Let_def split: if_splits)

lemma InterceptorMissile_update_alive:
  "fst (InterceptorMissile_update m dt) = (\<not> distance (m_pos m) (m_target m) < 5)"
  by (simp add: InterceptorMissile_update_def Let_def distance_inline)

lemma InterceptorMissile_update_fields:
  "m_speed (snd (InterceptorMissile_update m dt)) = m_speed m \<and>
   m_target (snd (InterceptorMissile_update m dt)) = m_target m"
  by (simp add: InterceptorMissile_update_def Let_def)

lemma distance_arriving_enemy: "distance (e_pos arriving_enemy) (e_end arriving_enemy) = 1"
  by (simp add: distance_def arriving_enemy_def origin_def)

lemma distance_arriving_interceptor:
  "distance (m_pos arriving_interceptor) (m_target arriving_interceptor) = 1"
  by (simp add: distance_def arriving_interceptor_def new_InterceptorMissile_def origin_def)

text \<open>
  C10. An update of an enemy rocket or of an interceptor that returns false returns
  the object with every field as it was, the position included, and then the enemy is
  strictly within 2 units of its end point, the interceptor strictly within 5 units
  of its target.
\<close>

theorem update_false_leaves_fields:
  "(\<not> fst (EnemyRocket_update e dt) \<longrightarrow>
      snd (EnemyRocket_update e dt) = e \<and> distance (e_pos e) (e_end e) < 2) \<and>
   (\<not> fst (InterceptorMissile_update m dt) \<longrightarrow>
      snd (InterceptorMissile_update m dt) = m \<and> distance (m_pos m) (m_target m) < 5)"
  by (simp add: EnemyRocket_update_def InterceptorMissile_update_def Let_def distance_inline)

theorem update_false_leaves_fields_witness:
  "\<not> fst (EnemyRocket_update arriving_enemy 0.1) \<and>
   snd (EnemyRocket_update arriving_enemy 0.1) = arriving_enemy \<and>
   distance (e_pos arriving_enemy) (e_end arriving_enemy) < 2 \<and>
   \<not> fst (InterceptorMissile_update arriving_interceptor 0.1) \<and>
   snd (InterceptorMissile_update arriving_interceptor 0.1) = arriving_interceptor \<and>
   distance (m_pos arriving_interceptor) (m_target arriving_interceptor) < 5"
proof -
  have e: "\<not> fst (EnemyRocket_update arriving_enemy 0.1)"
    by (simp add: EnemyRocket_update_alive distance_arriving_enemy)
  have m: "\<not> fst (InterceptorMissile_update arriving_interceptor 0.1)"
    by (simp add: InterceptorMissile_update_alive distance_arriving_interceptor)
  show ?thesis
    using update_false_leaves_fields [of arriving_enemy "0.1" arriving_interceptor] e m
    by simp
qed

lemma interceptors_filter_explosions:
  "snd (interceptors_filter dt ms exs) =
     exs @ map (\<lambda>m. new_Explosion (m_target m))
             [m \<leftarrow> ms. \<not> fst (InterceptorMissile_update m dt)]"
  by (induction ms arbitrary: exs) (simp_all add: Let_def InterceptorMissile_update_fields)

lemma interceptors_filter_kept:
  "fst (interceptors_filter dt ms exs) =
     map (\<lambda>m. snd (InterceptorMissile_update m dt))
       [m \<leftarrow> ms. fst (InterceptorMissile_update m dt)]"
  by (induction ms arbitrary: exs) (simp_all add: Let_def)

text \<open>
  C8. A new interceptor has speed 400, whatever the round (the constructor takes no
  round), and an update keeps the speed. The update returns false exactly when the
  distance from the position to the target is below 5. The frame's filter keeps the
  interceptors whose update returned true and appends, for each one whose update
  returned false, an explosion whose centre is the interceptor's stored target.
\<close>

theorem InterceptorMissile_contract:
  "m_speed (new_InterceptorMissile s t) = 400 \<and>
   m_target (new_InterceptorMissile s t) = t \<and>
   m_speed (snd (InterceptorMissile_update m dt)) = m_speed m \<and>
   m_target (snd (InterceptorMissile_update m dt)) = m_target m \<and>
   (fst (InterceptorMissile_update m dt) = False \<longleftrightarrow> distance (m_pos m) (m_target m) < 5) \<and>
   fst (interceptors_filter dt ms exs) =
     map (\<lambda>m. snd (InterceptorMissile_update m dt))
       [m \<leftarrow> ms. \<not> distance (m_pos m) (m_target m) < 5] \<and>
   snd (interceptors_filter dt ms exs) =
     exs @ map (\<lambda>m. new_Explosion (m_target m))
             [m \<leftarrow> ms. distance (m_pos m) (m_target m) < 5] \<and>
   x_pos (new_Explosion (m_target m)) = m_target m"
  by (simp add: interceptors_filter_explosions interceptors_filter_kept
      InterceptorMissile_update_alive InterceptorMissile_update_fields
      new_InterceptorMissile_def new_Explosion_def)

theorem InterceptorMissile_contract_witness:
  "(fst (InterceptorMissile_update arriving_interceptor 0.1) = False \<and>
    interceptors_filter 0.1 [arriving_interceptor] [] =
      ([], [new_Explosion (m_target arriving_interceptor)])) \<and>
   m_target arriving_interceptor = \<lparr> px = 1, py = 0 \<rparr> \<and>
   m_pos arriving_interceptor = origin"
proof -
  have t: "m_target arriving_interceptor = \<lparr> px = 1, py = 0 \<rparr>"
    by (simp add: arriving_interceptor_def new_InterceptorMissile_def)
  have p: "m_pos arriving_interceptor = origin"
    by (simp add: arriving_interceptor_def new_InterceptorMissile_def)
  have main: "fst (InterceptorMissile_update arriving_interceptor 0.1) = False \<and>
    interceptors_filter 0.1 [arriving_interceptor] [] =
      ([], [new_Explosion (m_target arriving_interceptor)])"
    using InterceptorMissile_contract
      [of origin origin arriving_interceptor "0.1" "[arriving_interceptor]" "[]"]
    by (simp add: distance_arriving_interceptor prod_eq_iff)
  show ?thesis
    using main t p by blast
qed

subsection \<open>Explosions against enemies\<close>

lemma collide_enemies: "fst (collide e ens sd) = [en \<leftarrow> ens. \<not> hits e en]"
  by (induction ens arbitrary: sd) (auto simp add: Let_def hits_def distance_inline)

lemma collide_score:
  "fst (snd (collide e ens (s, d))) = s + 20 * int (length [en \<leftarrow> ens. hits e en])"
  by (induction ens arbitrary: s d) (auto simp add: Let_def hits_def distance_inline)

lemma collide_destroyed:
  "snd (snd (collide e ens (s, d))) = d + int (length [en \<leftarrow> ens. hits e en])"
  by (induction ens arbitrary: s d) (auto simp add: Let_def hits_def distance_inline)

lemma collide_eq:
  "collide e ens (s, d) =
     ([en \<leftarrow> ens. \<not> hits e en],
      s + 20 * (int (length ens) - int (length [en \<leftarrow> ens. \<not> hits e en])),
      d + (int (length ens) - int (length [en \<leftarrow> ens. \<not> hits e en])))"
proof -
  have "int (length [en \<leftarrow> ens. hits e en]) =
          int (length ens) - int (length [en \<leftarrow> ens. \<not> hits e en])"
    using sum_length_filter_compl [of "hits e" ens] by simp
  then show ?thesis
    using collide_enemies [of e ens "(s, d)"] collide_score [of e ens s d]
      collide_destroyed [of e ens s d]
    by (metis prod.collapse)
qed

lemma Explosion_update_alive:
  "fst (Explosion_update e dt) = (x_radius (snd (Explosion_update e dt)) > 0)"
  by (simp add: Explosion_update_def Let_def)

lemma explosions_filter_eq:
  "explosions_filter dt es (ens, s, d) =
     ([e' \<leftarrow> map (\<lambda>e. snd (Explosion_update e dt)) es. x_radius e' > 0],
      [en \<leftarrow> ens. \<forall>e' \<in> set (map (\<lambda>e. snd (Explosion_update e dt)) es). \<not> hits e' en],
      s + 20 * (int (length ens) - int (length
        [en \<leftarrow> ens. \<forall>e' \<in> set (map (\<lambda>e. snd (Explosion_update e dt)) es). \<not> hits e' en])),
      d + (int (length ens) - int (length
        [en \<leftarrow> ens. \<forall>e' \<in> set (map (\<lambda>e. snd (Explosion_update e dt)) es). \<not> hits e' en])))"
proof (induction es arbitrary: ens s d)
  case Nil
  then show ?case by simp
next
  case (Cons e es)
  show ?case
    by (simp add: Let_def collide_eq Cons.IH Explosion_update_alive conj_commute algebra_simps)
qed

lemma score_spawning: "score (spawning snap dt rnd g) = score g"
  by (simp add: spawning_def Let_def)

lemma enemiesDestroyed_spawning:
  "enemiesDestroyed (spawning snap dt rnd g) = enemiesDestroyed g"
  by (simp add: spawning_def Let_def)

lemma score_roundEndCheck: "score (roundEndCheck snap g) = score g"
  by (simp add: roundEndCheck_def)

lemma enemiesDestroyed_roundEndCheck:
  "enemiesDestroyed (roundEndCheck snap g) = enemiesDestroyed g"
  by (simp add: roundEndCheck_def)

lemma loop_score_destroyed:
  "score (loop time rnd g) =
     score g + 20 * (enemiesDestroyed (loop time rnd g) - enemiesDestroyed g)"
  by (simp add: loop_def Let_def score_spawning enemiesDestroyed_spawning
      score_roundEndCheck enemiesDestroyed_roundEndCheck explosions_filter_eq)

text \<open>
  C4. In the frame's pass over the explosions each explosion is updated and then
  checked against every enemy still there. An enemy is \<open>hit\<close> by an explosion when its
  distance to the centre is strictly below the radius the explosion has after this
  frame's update. The enemies left after the pass are exactly those hit by none of the
  explosions, in their order; the score grows by 20 and \<open>enemiesDestroyed\<close> by 1 for
  each enemy removed; and over a whole frame the score grows by 20 times the growth of
  \<open>enemiesDestroyed\<close>.
\<close>

theorem blast_collision_rule:
  "hits e' en = (distance (x_pos e') (e_pos en) < x_radius e') \<and>
   fst (snd (explosions_filter dt es (ens, s, d))) =
     [en \<leftarrow> ens. \<forall>e' \<in> set (map (\<lambda>e. snd (Explosion_update e dt)) es). \<not> hits e' en] \<and>
   fst (snd (snd (explosions_filter dt es (ens, s, d)))) =
     s + 20 * (int (length ens) - int (length (fst (snd (explosions_filter dt es (ens, s, d)))))) \<and>
   snd (snd (snd (explosions_filter dt es (ens, s, d)))) =
     d + (int (length ens) - int (length (fst (snd (explosions_filter dt es (ens, s, d)))))) \<and>
   score (loop time rnd g) =
     score g + 20 * (enemiesDestroyed (loop time rnd g) - enemiesDestroyed g)"
  by (simp add: explosions_filter_eq loop_score_destroyed hits_def)

lemma hits_example:
  "hits (snd (Explosion_update (new_Explosion origin) 0.1)) arriving_enemy \<and>
   \<not> hits (snd (Explosion_update (new_Explosion origin) 0.1)) far_enemy"
  by (simp add: hits_def distance_def sqrt_less_iff Explosion_update_def new_Explosion_def
      Let_def arriving_enemy_def far_enemy_def origin_def)

theorem blast_collision_rule_witness:
  "x_radius (snd (Explosion_update (new_Explosion origin) 0.1)) = 6 \<and>
   distance origin (e_pos arriving_enemy) = 0 \<and>
   distance origin (e_pos far_enemy) = 100 \<and>
   snd (explosions_filter 0.1 [new_Explosion origin] ([arriving_enemy, far_enemy], 980, 3)) =
     ([far_enemy], 1000, 4)"
proof -
  have r: "x_radius (snd (Explosion_update (new_Explosion origin) 0.1)) = 6"
    by (simp add: Explosion_update_def new_Explosion_def Let_def)
  have d1: "distance origin (e_pos arriving_enemy) = 0"
    by (simp add: distance_def arriving_enemy_def origin_def)
  have d2: "distance origin (e_pos far_enemy) = 100"
    by (simp add: distance_def far_enemy_def origin_def)
  show ?thesis
    using blast_collision_rule
      [of "snd (Explosion_update (new_Explosion origin) 0.1)" far_enemy "0.1"
          "[new_Explosion origin]" "[arriving_enemy, far_enemy]" 980 3]
      hits_example r d1 d2
    by (simp add: prod_eq_iff)
qed

subsection \<open>Enemies that arrive\<close>

lemma alive_at_set_false: "alive_at (set_false xs i) j = (alive_at xs j \<and> j \<noteq> i)"
  by (auto simp add: alive_at_def set_false_def nth_append nth_list_update nth_Cons')

lemma arrived_Nil: "arrived dt [] = []"
  by (simp add: arrived_def)

lemma arrived_Cons:
  "arrived dt (e # ens) =
     (if fst (EnemyRocket_update e dt) then arrived dt ens else e # arrived dt ens)"
  by (simp add: arrived_def)

lemma enemies_filter_kept:
  "fst (enemies_filter dt ens (cs, bs, exs)) =
     map (\<lambda>e. snd (EnemyRocket_update e dt)) [e \<leftarrow> ens. fst (EnemyRocket_update e dt)]"
  by (induction ens arbitrary: cs bs exs) (simp_all add: Let_def)

lemma enemies_filter_explosions:
  "snd (snd (snd (enemies_filter dt ens (cs, bs, exs)))) =
     exs @ map (\<lambda>e. new_Explosion (e_pos e)) (arrived dt ens)"
  by (induction ens arbitrary: cs bs exs)
     (simp_all add: Let_def arrived_Nil arrived_Cons EnemyRocket_update_dead)

lemma enemies_filter_cities:
  "alive_at (fst (snd (enemies_filter dt ens (cs, bs, exs)))) j =
     (alive_at cs j \<and>
      \<not> (\<exists>e \<in> set (arrived dt ens). e_targetIndex e < 6 \<and> e_targetIndex e = j))"
  by (induction ens arbitrary: cs bs exs)
     (auto simp add: Let_def arrived_Nil arrived_Cons EnemyRocket_update_dead alive_at_set_false)

lemma enemies_filter_batteries:
  "alive_at (fst (snd (snd (enemies_filter dt ens (cs, bs, exs))))) j =
     (alive_at bs j \<and>
      \<not> (\<exists>e \<in> set (arrived dt ens). \<not> e_targetIndex e < 6 \<and> e_targetIndex e - 6 = j))"
  by (induction ens arbitrary: cs bs exs)
     (auto simp add: Let_def arrived_Nil arrived_Cons EnemyRocket_update_dead alive_at_set_false)

text \<open>
  C6. In the frame's pass over the enemies, the enemies whose update returns false
  (\<open>arrived\<close>) are those strictly within 2 units of their end point. The pass keeps
  the others, so each arrival is resolved once, and for each arrival it appends one
  explosion centred at the enemy's position. A city is alive after the pass exactly
  when it was alive before and no arrived enemy has its index as a target index below
  6; a battery is alive after the pass exactly when it was alive before and no arrived
  enemy has a target index of 6 or more equal to its index plus 6. So an arrival marks
  the one structure of its target index and nothing else.
\<close>

theorem enemy_arrival_resolution:
  "set (arrived dt ens) = {e \<in> set ens. distance (e_pos e) (e_end e) < 2} \<and>
   fst (enemies_filter dt ens (cs, bs, exs)) =
     map (\<lambda>e. snd (EnemyRocket_update e dt)) [e \<leftarrow> ens. \<not> distance (e_pos e) (e_end e) < 2] \<and>
   snd (snd (snd (enemies_filter dt ens (cs, bs, exs)))) =
     exs @ map (\<lambda>e. new_Explosion (e_pos e)) (arrived dt ens) \<and>
   x_pos (new_Explosion (e_pos e)) = e_pos e \<and>
   (\<forall>j. alive_at (fst (snd (enemies_filter dt ens (cs, bs, exs)))) j =
     (alive_at cs j \<and>
      \<not> (\<exists>e \<in> set (arrived dt ens). e_targetIndex e < 6 \<and> e_targetIndex e = j))) \<and>
   (\<forall>j. alive_at (fst (snd (snd (enemies_filter dt ens (cs, bs, exs))))) j =
     (alive_at bs j \<and>
      \<not> (\<exists>e \<in> set (arrived dt ens). \<not> e_targetIndex e < 6 \<and> e_targetIndex e - 6 = j)))"
  by (simp add: enemies_filter_kept enemies_filter_explosions enemies_filter_cities
      enemies_filter_batteries new_Explosion_def arrived_def EnemyRocket_update_alive)

lemma arrived_example: "arrived 0.1 [arriving_enemy] = [arriving_enemy]"
  by (simp add: arrived_def EnemyRocket_update_alive distance_arriving_enemy)

theorem enemy_arrival_resolution_witness:
  "e_targetIndex arriving_enemy = 7 \<and>
   fst (enemies_filter 0.1 [arriving_enemy]
          ([True, True, True, True, True, True], [True, True, True], [])) = [] \<and>
   snd (snd (snd (enemies_filter 0.1 [arriving_enemy]
          ([True, True, True, True, True, True], [True, True, True], [])))) =
     [new_Explosion (e_pos arriving_enemy)] \<and>
   alive_at (fst (snd (snd (enemies_filter 0.1 [arriving_enemy]
          ([True, True, True, True, True, True], [True, True, True], []))))) 1 = False \<and>
   alive_at (fst (snd (snd (enemies_filter 0.1 [arriving_enemy]
          ([True, True, True, True, True, True], [True, True, True], []))))) 0 = True \<and>
   alive_at (fst (snd (enemies_filter 0.1 [arriving_enemy]
          ([True, True, True, True, True, True], [True, True, True], [])))) 1 = True"
proof -
  have t: "e_targetIndex arriving_enemy = 7"
    by (simp add: arriving_enemy_def)
  note r = enemy_arrival_resolution
      [of "0.1" "[arriving_enemy]" "[True, True, True, True, True, True]" "[True, True, True]"
          "[]" arriving_enemy]
  have k: "fst (enemies_filter 0.1 [arriving_enemy]
          ([True, True, True, True, True, True], [True, True, True], [])) = []"
    using r by (simp add: distance_arriving_enemy)
  have x: "snd (snd (snd (enemies_filter 0.1 [arriving_enemy]
          ([True, True, True, True, True, True], [True, True, True], [])))) =
     [new_Explosion (e_pos arriving_enemy)]"
    using r by (simp add: arrived_example)
  have b: "\<forall>j. alive_at (fst (snd (snd (enemies_filter 0.1 [arriving_enemy]
          ([True, True, True, True, True, True], [True, True, True], []))))) j =
       (alive_at [True, True, True] j \<and> j \<noteq> 1)"
    using r by (auto simp add: arrived_example t)
  have c: "\<forall>j. alive_at (fst (snd (enemies_filter 0.1 [arriving_enemy]
          ([True, True, True, True, True, True], [True, True, True], [])))) j =
       alive_at [True, True, True, True, True, True] j"
    using r by (simp add: arrived_example t)
  have v: "alive_at [True, True, True] 0" "alive_at [True, True, True, True, True, True] 1"
    by (simp_all add: alive_at_def)
  show ?thesis
    using t k x b c v by (simp del: enemies_filter.simps)
qed

subsection \<open>Spawning\<close>

lemma availableTargets_nonempty:
  "(0 < length (availableTargets cs bs)) = (True \<in> set cs \<or> True \<in> set bs)"
  by (auto simp add: availableTargets_def filter_empty_conv in_set_conv_nth)

lemma spawning_spawns:
  assumes "status snap = PLAYING" and "0 < enemiesToSpawn g" and "spawnTimer g - dt \<le> 0"
    and "0 < length (availableTargets (cities snap) (batteries snap))"
  shows "spawning snap dt rnd g =
     g\<lparr> enemies := enemies g @
           [new_EnemyRocket (width g) (height g)
              (targetX_of (width g)
                 (availableTargets (cities snap) (batteries snap) !
                    nat \<lfloor>r_target rnd *
                      real (length (availableTargets (cities snap) (batteries snap)))\<rfloor>))
              (availableTargets (cities snap) (batteries snap) !
                 nat \<lfloor>r_target rnd *
                   real (length (availableTargets (cities snap) (batteries snap)))\<rfloor>)
              (40 + real_of_int (round_n snap) * 10) (r_start rnd)],
         enemiesToSpawn := enemiesToSpawn g - 1,
         spawnTimer := 1.5 - min 1 (real_of_int (round_n snap) * 0.1) + r_timer rnd \<rparr>"
  using assms by (simp add: spawning_def Let_def)

lemma spawning_stalls:
  assumes "status snap = PLAYING" and "0 < enemiesToSpawn g" and "spawnTimer g - dt \<le> 0"
    and "\<not> 0 < length (availableTargets (cities snap) (batteries snap))"
  shows "spawning snap dt rnd g = g\<lparr> spawnTimer := spawnTimer g - dt \<rparr>"
  using assms by (simp add: spawning_def Let_def)

lemma rand_index_in_range:
  assumes "0 \<le> r" and "r < 1" and "0 < n"
  shows "nat \<lfloor>r * real n\<rfloor> < n"
proof -
  have "r * real n < real n" using assms by simp
  moreover have "0 \<le> r * real n" using assms by simp
  ultimately show ?thesis
    by (metis floor_less_iff nat_less_iff of_int_of_nat_eq zero_le_floor)
qed

text \<open>
  C7. Take the spawning block of a frame whose closure has status PLAYING, with
  \<open>enemiesToSpawn\<close> positive and the spawn timer at or below 0 once dt is taken off,
  and the target draw of \<^verbatim>\<open>Math.random()\<close> in [0, 1). If a city or a battery of the
  closure is alive, exactly one enemy is appended, built by the constructor with the
  nominal speed 40 + round * 10 (stored as two thirds of it) and a target index among
  the alive targets; \<open>enemiesToSpawn\<close> goes down by one; and the timer becomes
  1.5 - min(1, round * 0.1) + random(), for the value random() of the timer's draw.
  If none is alive the block returns with no enemy added and \<open>enemiesToSpawn\<close> as it
  was: only dt has been taken off the timer.
\<close>

theorem spawning_event:
  assumes "status snap = PLAYING" and "0 < enemiesToSpawn g" and "spawnTimer g - dt \<le> 0"
    and "0 \<le> r_target rnd \<and> r_target rnd < 1"
  shows "(True \<in> set (cities snap) \<or> True \<in> set (batteries snap) \<longrightarrow>
            (\<exists>targetX targetIdx.
                 targetIdx \<in> set (availableTargets (cities snap) (batteries snap)) \<and>
                 enemies (spawning snap dt rnd g) =
                   enemies g @ [new_EnemyRocket (width g) (height g) targetX targetIdx
                                  (40 + real_of_int (round_n snap) * 10) (r_start rnd)] \<and>
                 e_speed (last (enemies (spawning snap dt rnd g))) =
                   (40 + real_of_int (round_n snap) * 10) * (2 / 3)) \<and>
            enemiesToSpawn (spawning snap dt rnd g) = enemiesToSpawn g - 1 \<and>
            spawnTimer (spawning snap dt rnd g) =
              1.5 - min 1 (real_of_int (round_n snap) * 0.1) + r_timer rnd) \<and>
         (\<not> (True \<in> set (cities snap) \<or> True \<in> set (batteries snap)) \<longrightarrow>
            spawning snap dt rnd g = g\<lparr> spawnTimer := spawnTimer g - dt \<rparr>)"
proof (cases "0 < length (availableTargets (cities snap) (batteries snap))")
  case True
  have "nat \<lfloor>r_target rnd * real (length (availableTargets (cities snap) (batteries snap)))\<rfloor>
          < length (availableTargets (cities snap) (batteries snap))"
    using rand_index_in_range [of "r_target rnd"] assms(4) True by simp
  then have "availableTargets (cities snap) (batteries snap) !
      nat \<lfloor>r_target rnd * real (length (availableTargets (cities snap) (batteries snap)))\<rfloor>
        \<in> set (availableTargets (cities snap) (batteries snap))"
    by (rule nth_mem)
  then show ?thesis
    using True availableTargets_nonempty [of "cities snap" "batteries snap"]
    by (auto simp add: spawning_spawns [OF assms(1) assms(2) assms(3) True] new_EnemyRocket_def)
next
  case False
  then show ?thesis
    using availableTargets_nonempty [of "cities snap" "batteries snap"]
    by (simp add: spawning_stalls [OF assms(1) assms(2) assms(3) False])
qed

theorem spawning_event_witness:
  "(enemiesToSpawn (spawning spawn_example 0.016 spawn_rand spawn_example) = 14 \<and>
    spawnTimer (spawning spawn_example 0.016 spawn_rand spawn_example) = 1.9 \<and>
    e_speed (last (enemies (spawning spawn_example 0.016 spawn_rand spawn_example))) =
      50 * (2 / 3)) \<and>
   spawning no_target_example 0.016 spawn_rand no_target_example =
     no_target_example\<lparr> spawnTimer := - 0.016 \<rparr>"
proof -
  have h1: "status spawn_example = PLAYING" "0 < enemiesToSpawn spawn_example"
    "spawnTimer spawn_example - 0.016 \<le> 0" "0 \<le> r_target spawn_rand \<and> r_target spawn_rand < 1"
    by (simp_all add: spawn_example_def initial_def spawn_rand_def)
  have h2: "status no_target_example = PLAYING" "0 < enemiesToSpawn no_target_example"
    "spawnTimer no_target_example - 0.016 \<le> 0"
    by (simp_all add: no_target_example_def spawn_example_def initial_def)
  have a: "True \<in> set (cities spawn_example) \<or> True \<in> set (batteries spawn_example)"
    by (simp add: spawn_example_def)
  have b: "\<not> (True \<in> set (cities no_target_example) \<or> True \<in> set (batteries no_target_example))"
    by (simp add: no_target_example_def)
  have r: "round_n spawn_example = 1" "r_timer spawn_rand = 1 / 2"
    by (simp_all add: spawn_example_def initial_def spawn_rand_def)
  have s: "spawnTimer no_target_example = 0"
    by (simp add: no_target_example_def spawn_example_def initial_def)
  have first: "enemiesToSpawn (spawning spawn_example 0.016 spawn_rand spawn_example) = 14 \<and>
    spawnTimer (spawning spawn_example 0.016 spawn_rand spawn_example) = 1.9 \<and>
    e_speed (last (enemies (spawning spawn_example 0.016 spawn_rand spawn_example))) =
      50 * (2 / 3)"
    using spawning_event [OF h1] a r
    by (auto simp add: spawn_example_def initial_def)
  have second: "spawning no_target_example 0.016 spawn_rand no_target_example =
     no_target_example\<lparr> spawnTimer := - 0.016 \<rparr>"
    using spawning_event [OF h2 h1(4)] b s by simp
  show ?thesis using first second by blast
qed

subsection \<open>The fire command\<close>

lemma nearest_cases:
  "nearest g x bps (b0, m0) = (b, m) \<Longrightarrow>
     (b, m) = (b0, m0) \<or>
     (\<exists>bx i. (bx, i) \<in> set bps \<and> b = int i \<and> alive_at (batteries g) i \<and>
        ammo_positive (ammo g) i)"
proof (induction bps arbitrary: b0 m0)
  case Nil
  then show ?case by simp
next
  case (Cons bp bps)
  obtain bx i where bp: "bp = (bx, i)" by (cases bp)
  show ?case
  proof (cases "alive_at (batteries g) i \<and> ammo_positive (ammo g) i \<and>
      (case m0 of None \<Rightarrow> True | Some m \<Rightarrow> \<bar>x - bx\<bar> < m)")
    case True
    then have "nearest g x bps (int i, Some \<bar>x - bx\<bar>) = (b, m)"
      using Cons.prems bp by (simp add: Let_def)
    from Cons.IH [OF this] show ?thesis using True bp by auto
  next
    case False
    then have "nearest g x bps (b0, m0) = (b, m)"
      using Cons.prems bp by (auto simp add: Let_def split: if_splits)
    from Cons.IH [OF this] show ?thesis by auto
  qed
qed

lemma nearest_none:
  "\<forall>(bx, i) \<in> set bps. \<not> (alive_at (batteries g) i \<and> ammo_positive (ammo g) i) \<Longrightarrow>
   nearest g x bps acc = acc"
proof (induction bps arbitrary: acc)
  case Nil
  then show ?case by simp
next
  case (Cons bp bps)
  then show ?case by (cases bp; cases acc) auto
qed

lemma bestBattery_cases:
  assumes "fst (nearest g x (batteryPositions g) (- 1, None)) = b"
  shows "b = - 1 \<or>
    (b \<in> {0, 1, 2} \<and> alive_at (batteries g) (nat b) \<and> ammo_positive (ammo g) (nat b))"
proof -
  obtain m where "nearest g x (batteryPositions g) (- 1, None) = (b, m)"
    using assms by (cases "nearest g x (batteryPositions g) (- 1, None)") simp
  from nearest_cases [OF this] show ?thesis
    by (auto simp add: batteryPositions_def)
qed

text \<open>A press changes nothing, or fires from one alive battery with ammo.\<close>

lemma handleCanvasClick_cases:
  "handleCanvasClick x y g = g \<or>
   (\<exists>i<3. alive_at (batteries g) i \<and> ammo_positive (ammo g) i \<and>
      handleCanvasClick x y g =
        g\<lparr> interceptors := interceptors g @
              [new_InterceptorMissile
                 \<lparr> px = fst (batteryPositions g ! i), py = height g - 40 \<rparr> \<lparr> px = x, py = y \<rparr>],
           ammo := (ammo g)[i := ammo g ! i - 1] \<rparr>)"
proof (cases "status g \<noteq> PLAYING \<or> y > height g - 60 \<or>
    fst (nearest g x (batteryPositions g) (- 1, None)) = - 1")
  case True
  then have "handleCanvasClick x y g = g"
    by (auto simp add: handleCanvasClick_def Let_def)
  then show ?thesis by simp
next
  case False
  define b where "b = fst (nearest g x (batteryPositions g) (- 1, None))"
  have b: "b \<in> {0, 1, 2}" "alive_at (batteries g) (nat b)" "ammo_positive (ammo g) (nat b)"
    using bestBattery_cases [of g x b] False by (auto simp add: b_def)
  have "nat b < 3" using b(1) by auto
  moreover have "handleCanvasClick x y g =
        g\<lparr> interceptors := interceptors g @
              [new_InterceptorMissile
                 \<lparr> px = fst (batteryPositions g ! nat b), py = height g - 40 \<rparr>
                 \<lparr> px = x, py = y \<rparr>],
           ammo := (ammo g)[nat b := ammo g ! nat b - 1] \<rparr>"
    using False by (simp add: handleCanvasClick_def Let_def b_def)
  ultimately show ?thesis
    using b by blast
qed

lemma nearest_only_centre:
  assumes "batteries g = [True, True, True]" and "ammo g = [0, 5, 0]"
  shows "nearest g x (batteryPositions g) (- 1, None) = (1, Some \<bar>x - width g / 2\<bar>)"
  using assms by (simp add: batteryPositions_def alive_at_def ammo_positive_def Let_def)

lemma press_centre:
  assumes "status g = PLAYING" and "y \<le> height g - 60"
    and "batteries g = [True, True, True]" and "ammo g = [0, 5, 0]"
  shows "handleCanvasClick x y g =
        g\<lparr> interceptors := interceptors g @
              [new_InterceptorMissile \<lparr> px = width g / 2, py = height g - 40 \<rparr>
                 \<lparr> px = x, py = y \<rparr>],
           ammo := [0, 4, 0] \<rparr>"
proof -
  have n: "fst (nearest g x (batteryPositions g) (- 1, None)) = 1"
    by (simp add: nearest_only_centre [OF assms(3) assms(4)])
  have p: "fst (batteryPositions g ! nat 1) = width g / 2"
    by (simp add: batteryPositions_def)
  have a: "(ammo g)[nat 1 := ammo g ! nat 1 - 1] = [0, 4, 0]"
    by (simp add: assms(4))
  have "\<not> y > height g - 60" using assms(2) by simp
  then show ?thesis
    unfolding handleCanvasClick_def Let_def n p a using assms(1) by simp
qed

lemma press_dropped:
  assumes "\<forall>i<3. \<not> (alive_at (batteries g) i \<and> ammo_positive (ammo g) i)"
  shows "handleCanvasClick x y g = g"
proof -
  have "\<forall>(bx, i) \<in> set (batteryPositions g).
          \<not> (alive_at (batteries g) i \<and> ammo_positive (ammo g) i)"
    using assms by (simp add: batteryPositions_def)
  then have "nearest g x (batteryPositions g) (- 1, None) = (- 1, None)"
    by (rule nearest_none)
  then show "handleCanvasClick x y g = g"
    by (simp add: handleCanvasClick_def Let_def)
qed

text \<open>
  C3 (counterexample). Playing on an 800 by 600 canvas with all batteries alive and
  ammo [0, 5, 0], a press at (50, 100) is in the playable band and nearest to battery
  0 (10 units, against 350 and 710). An interceptor is spawned, from the centre
  battery at (400, 560), and the ammo becomes [0, 4, 0].
\<close>

theorem press_near_empty_battery_fires:
  "status low_ammo_example = PLAYING \<and> ammo low_ammo_example = [0, 5, 0] \<and>
   batteries low_ammo_example = [True, True, True] \<and>
   100 \<le> height low_ammo_example - 60 \<and>
   map (\<lambda>bp. \<bar>50 - fst bp\<bar>) (batteryPositions low_ammo_example) = [10, 350, 710] \<and>
   interceptors low_ammo_example = [] \<and>
   interceptors (handleCanvasClick 50 100 low_ammo_example) =
     [new_InterceptorMissile \<lparr>px = 400, py = 560\<rparr> \<lparr>px = 50, py = 100\<rparr>] \<and>
   ammo (handleCanvasClick 50 100 low_ammo_example) = [0, 4, 0]"
  by (simp add: low_ammo_example_def initial_def handleCanvasClick_def batteryPositions_def
      alive_at_def ammo_positive_def Let_def)

text \<open>
  C3 (amended). If the fire command is invoked while PLAYING with a press in the
  playable band, all batteries alive and ammo = [0, 5, 0], then wherever the press is
  (also nearest to battery 0) one interceptor is spawned from the centre battery, the
  nearest one among those with ammo, toward the press, and the ammo becomes [0, 4, 0].
  Every press either changes nothing or fires from one battery that is alive and has
  ammo > 0, so a battery with zero ammo is never the firing battery; and when no alive
  battery has ammo > 0 the press changes nothing.
\<close>

theorem handleCanvasClick_ammo_filter:
  "(status g = PLAYING \<and> y \<le> height g - 60 \<and> batteries g = [True, True, True] \<and>
    ammo g = [0, 5, 0] \<longrightarrow>
      handleCanvasClick x y g =
        g\<lparr> interceptors := interceptors g @
              [new_InterceptorMissile \<lparr> px = width g / 2, py = height g - 40 \<rparr>
                 \<lparr> px = x, py = y \<rparr>],
           ammo := [0, 4, 0] \<rparr>) \<and>
   (handleCanvasClick x y g = g \<or>
     (\<exists>i<3. alive_at (batteries g) i \<and> ammo_positive (ammo g) i \<and>
        handleCanvasClick x y g =
          g\<lparr> interceptors := interceptors g @
                [new_InterceptorMissile
                   \<lparr> px = fst (batteryPositions g ! i), py = height g - 40 \<rparr>
                   \<lparr> px = x, py = y \<rparr>],
             ammo := (ammo g)[i := ammo g ! i - 1] \<rparr>)) \<and>
   ((\<forall>i<3. \<not> (alive_at (batteries g) i \<and> ammo_positive (ammo g) i)) \<longrightarrow>
      handleCanvasClick x y g = g)"
  using press_centre [of g y x] handleCanvasClick_cases [of x y g] press_dropped [of g x y]
  by blast

theorem handleCanvasClick_ammo_filter_witness:
  "handleCanvasClick 50 100 low_ammo_example =
     low_ammo_example\<lparr> interceptors := interceptors low_ammo_example @
         [new_InterceptorMissile
            \<lparr> px = width low_ammo_example / 2, py = height low_ammo_example - 40 \<rparr>
            \<lparr> px = 50, py = 100 \<rparr>],
       ammo := [0, 4, 0] \<rparr> \<and>
   handleCanvasClick 50 100 no_ammo_example = no_ammo_example"
proof -
  have h: "status low_ammo_example = PLAYING \<and> 100 \<le> height low_ammo_example - 60 \<and>
      batteries low_ammo_example = [True, True, True] \<and> ammo low_ammo_example = [0, 5, 0]"
    by (simp add: low_ammo_example_def)
  have n: "\<forall>i<3. \<not> (alive_at (batteries no_ammo_example) i \<and>
      ammo_positive (ammo no_ammo_example) i)"
    by (simp add: no_ammo_example_def ammo_positive_def nth_Cons')
  show ?thesis
    using handleCanvasClick_ammo_filter [of low_ammo_example 100 50]
      handleCanvasClick_ammo_filter [of no_ammo_example 100 50] h n
    by blast
qed

subsection \<open>Win and loss\<close>

lemma winLossEffect_frame:
  "winLossEffect g = g\<lparr> status := status (winLossEffect g) \<rparr>"
  by (simp add: winLossEffect_def Let_def)

lemma winLossEffect_status:
  "status (winLossEffect g) =
     (if status g = PLAYING then
        (if True \<notin> set (batteries g) then GAME_OVER
         else if score g \<ge> 1000 then WIN else PLAYING)
      else status g)"
  by (auto simp add: winLossEffect_def Let_def WIN_SCORE_def list_all_iff)

lemma winLossEffect_settled:
  "status (winLossEffect g) = PLAYING \<Longrightarrow>
     score (winLossEffect g) < 1000 \<and> True \<in> set (batteries (winLossEffect g))"
  by (auto simp add: winLossEffect_def Let_def WIN_SCORE_def list_all_iff split: if_splits)

lemma reachable_settled:
  "reachable g \<Longrightarrow> status g = PLAYING \<Longrightarrow> score g < 1000 \<and> True \<in> set (batteries g)"
proof (induction rule: reachable.induct)
  case r_init
  then show ?case by (simp add: initial_def)
next
  case (r_resize g w h)
  then show ?case by (simp add: resize_def)
next
  case (r_start g)
  then show ?case using winLossEffect_settled by blast
next
  case (r_next g)
  then show ?case using winLossEffect_settled by blast
next
  case (r_press g x y)
  then show ?case using winLossEffect_settled by blast
next
  case (r_frame g time rnd)
  then show ?case using winLossEffect_settled by blast
qed

text \<open>
  C5 (counterexample). In a PLAYING state with score 1000 and all three batteries
  destroyed the effect leaves the status GAME_OVER, not WIN.
\<close>

theorem win_overridden_by_loss:
  "status win_and_loss_example = PLAYING \<and> score win_and_loss_example = 1000 \<and>
   batteries win_and_loss_example = [False, False, False] \<and>
   status (winLossEffect win_and_loss_example) = GAME_OVER"
  by (simp add: win_and_loss_example_def initial_def winLossEffect_def WIN_SCORE_def)

text \<open>
  C5 (amended). The effect reads only the score, the batteries and the status, so
  what it does is regardless of the enemies. While PLAYING, if all batteries are
  destroyed the status becomes GAME_OVER, also when the score is 1000 or more (the
  loss check is the later of the two and wins); if the score is 1000 or more and a
  battery is alive the status becomes WIN. In any other status the effect changes
  nothing, and it never changes anything but the status. It runs after every command
  and every frame, so no state a session reaches is PLAYING with a score of 1000 or
  more or with all batteries destroyed.
\<close>

theorem winLossEffect_rule:
  "(status g = PLAYING \<and> score g \<ge> 1000 \<and> True \<in> set (batteries g)
      \<longrightarrow> status (winLossEffect g) = WIN) \<and>
   (status g = PLAYING \<and> True \<notin> set (batteries g)
      \<longrightarrow> status (winLossEffect g) = GAME_OVER) \<and>
   (status g \<noteq> PLAYING \<longrightarrow> winLossEffect g = g) \<and>
   winLossEffect g = g\<lparr> status := status (winLossEffect g) \<rparr> \<and>
   (reachable g \<and> status g = PLAYING \<longrightarrow> score g < 1000 \<and> True \<in> set (batteries g))"
proof -
  have "status g \<noteq> PLAYING \<longrightarrow> winLossEffect g = g"
    by (simp add: winLossEffect_def)
  then show ?thesis
    using reachable_settled [of g] winLossEffect_frame [of g]
    by (simp add: winLossEffect_status)
qed

lemma reachable_playing: "reachable (winLossEffect (startGame initial))"
  by (rule r_start [OF r_init]) (simp add: initial_def)

theorem winLossEffect_rule_witness:
  "status (winLossEffect win_example) = WIN \<and>
   status (winLossEffect win_and_loss_example) = GAME_OVER \<and>
   winLossEffect initial = initial \<and>
   (reachable (winLossEffect (startGame initial)) \<and>
    status (winLossEffect (startGame initial)) = PLAYING \<and>
    score (winLossEffect (startGame initial)) < 1000)"
proof -
  have a: "status win_example = PLAYING \<and> score win_example \<ge> 1000 \<and>
      True \<in> set (batteries win_example)"
    by (simp add: win_example_def)
  have b: "status win_and_loss_example = PLAYING \<and>
      True \<notin> set (batteries win_and_loss_example)"
    by (simp add: win_and_loss_example_def)
  have c: "status initial \<noteq> PLAYING"
    by (simp add: initial_def)
  have d: "status (winLossEffect (startGame initial)) = PLAYING"
    by (simp add: winLossEffect_def startGame_def initRound_def initial_def WIN_SCORE_def
        replicate_3)
  have w1: "status (winLossEffect win_example) = WIN"
    using winLossEffect_rule [of win_example, THEN conjunct1] a by (rule mp)
  have w2: "status (winLossEffect win_and_loss_example) = GAME_OVER"
    using winLossEffect_rule [of win_and_loss_example, THEN conjunct2, THEN conjunct1] b
    by (rule mp)
  have w3: "winLossEffect initial = initial"
    using winLossEffect_rule [of initial, THEN conjunct2, THEN conjunct2, THEN conjunct1] c
    by (rule mp)
  have w4: "score (winLossEffect (startGame initial)) < 1000"
    using winLossEffect_rule [of "winLossEffect (startGame initial)",
        THEN conjunct2, THEN conjunct2, THEN conjunct2, THEN conjunct2]
      reachable_playing d
    by blast
  show ?thesis
    using w1 w2 w3 w4 d reachable_playing by blast
qed

subsection \<open>Ammo\<close>

lemma ammo_spawning: "ammo (spawning snap dt rnd g) = ammo g"
  by (simp add: spawning_def Let_def)

lemma ammo_roundEndCheck: "ammo (roundEndCheck snap g) = ammo g"
  by (simp add: roundEndCheck_def)

lemma ammo_loop: "ammo (loop time rnd g) = ammo g"
  by (simp add: loop_def Let_def ammo_spawning ammo_roundEndCheck)

lemma ammo_winLossEffect: "ammo (winLossEffect g) = ammo g"
  by (simp add: winLossEffect_def Let_def)

lemma ammo_initRound: "ammo (initRound r g) = [20, 40, 20]"
  by (simp add: initRound_def INITIAL_AMMO_def)

lemma ammo_resize: "ammo (resize w h g) = ammo g"
  by (simp add: resize_def)

lemma ammo_startGame: "ammo (startGame g) = [20, 40, 20]"
  by (simp add: startGame_def ammo_initRound)

lemma ammo_nextRound: "ammo (nextRound g) = [20, 40, 20]"
  by (simp add: nextRound_def Let_def ammo_initRound)

lemma ammo_ok_initial: "ammo_ok [20, 40, 20]"
  by (simp add: ammo_ok_def)

lemma ammo_ok_update:
  assumes "ammo_ok a" and "i < 3" and "ammo_positive a i"
  shows "ammo_ok (a[i := a ! i - 1])"
proof -
  have "i = 0 \<or> i = 1 \<or> i = 2" using assms(2) by auto
  then show ?thesis
    using assms(1) assms(3) by (auto simp add: ammo_ok_def ammo_positive_def)
qed

lemma ammo_ok_press: "ammo_ok (ammo g) \<Longrightarrow> ammo_ok (ammo (handleCanvasClick x y g))"
  using handleCanvasClick_cases [of x y g] ammo_ok_update [of "ammo g"]
  by auto

lemma reachable_ammo_ok: "reachable g \<Longrightarrow> ammo_ok (ammo g)"
proof (induction rule: reachable.induct)
  case r_init
  then show ?case by (simp add: initial_def INITIAL_AMMO_def ammo_ok_initial)
next
  case (r_resize g w h)
  then show ?case by (simp add: ammo_resize)
next
  case (r_start g)
  then show ?case by (simp add: ammo_winLossEffect ammo_startGame ammo_ok_initial)
next
  case (r_next g)
  then show ?case by (simp add: ammo_winLossEffect ammo_nextRound ammo_ok_initial)
next
  case (r_press g x y)
  then show ?case by (simp add: ammo_winLossEffect ammo_ok_press)
next
  case (r_frame g time rnd)
  then show ?case by (simp add: ammo_winLossEffect ammo_loop)
qed

text \<open>
  C9. In every state a session reaches from the initial state by resizes, starts,
  next rounds, presses and frames, the ammo array has three entries and each is a
  non-negative integer. A press in such a state either changes nothing or picks one
  alive battery whose ammo is strictly positive and takes exactly one off that entry,
  the other two staying as they are; round initialization (alone, or inside the start
  and next-round commands) sets the array to [20, 40, 20]; a frame and the win and
  loss effect leave it as it is.
\<close>

theorem ammo_never_negative:
  assumes "reachable g"
  shows "length (ammo g) = 3 \<and> 0 \<le> ammo g ! 0 \<and> 0 \<le> ammo g ! 1 \<and> 0 \<le> ammo g ! 2 \<and>
         (handleCanvasClick x y g = g \<or>
          (\<exists>i<3. alive_at (batteries g) i \<and> 0 < ammo g ! i \<and>
             ammo (handleCanvasClick x y g) = (ammo g)[i := ammo g ! i - 1])) \<and>
         ammo (initRound r g) = [20, 40, 20] \<and>
         ammo (startGame g) = [20, 40, 20] \<and>
         ammo (nextRound g) = [20, 40, 20] \<and>
         ammo (loop time rnd g) = ammo g \<and>
         ammo (winLossEffect g) = ammo g"
proof -
  have ok: "ammo_ok (ammo g)" using assms by (rule reachable_ammo_ok)
  have press: "handleCanvasClick x y g = g \<or>
          (\<exists>i<3. alive_at (batteries g) i \<and> 0 < ammo g ! i \<and>
             ammo (handleCanvasClick x y g) = (ammo g)[i := ammo g ! i - 1])"
    using handleCanvasClick_cases [of x y g] by (auto simp add: ammo_positive_def)
  show ?thesis
    using ok press
    by (simp add: ammo_ok_def ammo_initRound ammo_startGame ammo_nextRound ammo_loop
        ammo_winLossEffect)
qed

lemma after_press_example_eq:
  "ammo after_press_example = [19, 40, 20] \<and>
   ammo (winLossEffect (startGame initial)) = [20, 40, 20]"
  by (simp add: after_press_example_def winLossEffect_def startGame_def initRound_def
      initial_def resize_def handleCanvasClick_def batteryPositions_def alive_at_def
      ammo_positive_def INITIAL_AMMO_def WIN_SCORE_def Let_def replicate_3)

lemma reachable_after_press: "reachable after_press_example"
  unfolding after_press_example_def
  by (rule r_press [OF r_resize [OF reachable_playing]])

theorem ammo_never_negative_witness:
  "reachable after_press_example \<and> ammo after_press_example = [19, 40, 20] \<and>
   length (ammo after_press_example) = 3 \<and> 0 \<le> ammo after_press_example ! 0 \<and>
   ammo (loop 16 spawn_rand after_press_example) = ammo after_press_example"
  using ammo_never_negative [OF reachable_after_press, of 50 100 1 16 spawn_rand]
    reachable_after_press after_press_example_eq
  by simp

end
